theory Spec2Isabelle
  imports Main "HOL-Library.Word" "HOL-Library.Sublist"
begin

section \<open>JavaScript strings\<close>

text \<open>
  A JavaScript string is a sequence of UTF-16 code units; \<open>length\<close>, \<open>slice\<close>,
  \<open>split\<close>, \<open>endsWith\<close> and \<open>trim\<close> all count and compare code units.
\<close>

type_synonym code_unit = "16 word"
type_synonym jsstring = "code_unit list"

text \<open>String literals of the source that are plain ASCII.\<close>

definition ascii :: "string \<Rightarrow> jsstring" where
  "ascii s = map (\<lambda>c. of_nat (of_char c)) s"

text \<open>
  The code units that \<open>String.prototype.trim\<close> strips: ECMAScript's WhiteSpace
  (TAB, VT, FF, ZWNBSP and the space separators) and LineTerminator (LF, CR, LS, PS).
\<close>

definition isWhiteSpace :: "code_unit \<Rightarrow> bool" where
  "isWhiteSpace c \<longleftrightarrow>
     c = 0x0009 \<or> c = 0x000A \<or> c = 0x000B \<or> c = 0x000C \<or> c = 0x000D \<or>
     c = 0x0020 \<or> c = 0x00A0 \<or> c = 0x1680 \<or> (0x2000 \<le> c \<and> c \<le> 0x200A) \<or>
     c = 0x2028 \<or> c = 0x2029 \<or> c = 0x202F \<or> c = 0x205F \<or> c = 0x3000 \<or>
     c = 0xFEFF"

definition trim :: "jsstring \<Rightarrow> jsstring" where
  "trim s = rev (dropWhile isWhiteSpace (rev (dropWhile isWhiteSpace s)))"

text \<open>
  \<open>Date.now().toString()\<close>: the clock reading is a non-negative integer number of
  milliseconds (far below \<open>10^21\<close>), which \<open>Number.prototype.toString\<close> renders as
  its decimal digits.
\<close>

fun toString :: "nat \<Rightarrow> jsstring" where
  "toString n =
     (if n < 10 then [of_nat (48 + n)]
      else toString (n div 10) @ [of_nat (48 + n mod 10)])"

declare toString.simps [simp del]

text \<open>\<open>s.endsWith(t)\<close>.\<close>

definition endsWith :: "jsstring \<Rightarrow> jsstring \<Rightarrow> bool" where
  "endsWith s t \<longleftrightarrow> length t \<le> length s \<and> drop (length s - length t) s = t"

text \<open>
  Values that can be thrown. \<open>TypeError\<close> and \<open>SyntaxError\<close> are raised by the
  engine, \<open>Error\<close> by \<open>throw new Error(msg)\<close>; all three are instances of
  \<open>Error\<close> and carry a message. \<open>NonError\<close> stands for any other thrown value.
\<close>

datatype exn = Error jsstring | TypeError jsstring | SyntaxError jsstring | NonError

text \<open>
  The message of the \<open>TypeError\<close> raised by reading property \<open>p\<close> of \<open>null\<close>
  (the wording is V8's; no result below depends on it).
\<close>

definition nullReadMessage :: "jsstring \<Rightarrow> jsstring" where
  "nullReadMessage p =
     ascii ''Cannot read properties of null (reading '' @ [0x27] @ p @ [0x27] @ ascii '')''"

section \<open>The editing surface (components/ProseMirrorEditor.tsx)\<close>

text \<open>
  The handle reads and writes the \<open>value\<close> of one textarea through a ref. The state of
  the surface is the string last assigned to \<open>value\<close> (the raw value), or \<open>None\<close> while
  the ref is not attached (then every method does nothing and \<open>getText\<close> returns the
  empty string). Reading \<open>value\<close> gives the raw value with its newlines normalised:
  every CR LF pair, and then every CR left, is one LF.
\<close>

type_synonym textarea = "jsstring option"

fun normalizeNewlines :: "jsstring \<Rightarrow> jsstring" where
  "normalizeNewlines [] = []"
| "normalizeNewlines [c] = [if c = 0x0D then 0x0A else c]"
| "normalizeNewlines (c # d # ds) =
     (if c = 0x0D \<and> d = 0x0A then 0x0A # normalizeNewlines ds
      else if c = 0x0D then 0x0A # normalizeNewlines (d # ds)
      else c # normalizeNewlines (d # ds))"

definition getText :: "textarea \<Rightarrow> jsstring" where
  "getText ta =
     (case ta of
        None \<Rightarrow> []
      | Some raw \<Rightarrow> (let v = normalizeNewlines raw in if v \<noteq> [] then v else []))"

definition setText :: "jsstring \<Rightarrow> textarea \<Rightarrow> textarea" where
  "setText text ta = (case ta of None \<Rightarrow> None | Some _ \<Rightarrow> Some text)"

definition insertTextAtEnd :: "jsstring \<Rightarrow> textarea \<Rightarrow> textarea" where
  "insertTextAtEnd text ta =
     (case ta of
        None \<Rightarrow> None
      | Some raw \<Rightarrow>
          let currentVal = normalizeNewlines raw;
              separator = (if currentVal \<noteq> [] \<and> \<not> endsWith currentVal [0x0A] then [0x0A] else [])
          in Some (currentVal @ separator @ text))"

definition clear :: "textarea \<Rightarrow> textarea" where
  "clear ta = (case ta of None \<Rightarrow> None | Some _ \<Rightarrow> Some [])"

section \<open>The generation state machine (machines/aiMachine.ts)\<close>

datatype state_value = idle | generating | success | failure

record Context =
  error :: "jsstring option"
  lastGenerated :: "jsstring option"

text \<open>
  The four declared events, and the two events the invoked \<open>callGrok\<close> promise actor
  sends back: \<open>done_callGrok out\<close> with \<open>out = event.output.generatedText\<close>, and
  \<open>error_callGrok m\<close> with \<open>m\<close> the \<open>message\<close> of the rejection reason
  (\<open>None\<close> when it has none).
\<close>

datatype Events =
    GENERATE "jsstring option"
  | CONTINUE
  | RETRY
  | CANCEL
  | done_callGrok jsstring
  | error_callGrok "jsstring option"

text \<open>
  A snapshot of the running machine: the active state, the context, and the inputs
  (\<open>GrokInput.text\<close>) of the invoked actors that are running. An invoked actor is
  started when its state is entered and stopped when the state is left.
\<close>

record Snapshot =
  state :: state_value
  ctx :: Context
  invoked :: "jsstring list"

definition initialSnapshot :: Snapshot where
  "initialSnapshot =
     \<lparr>state = idle, ctx = \<lparr>Context.error = None, lastGenerated = None\<rparr>, invoked = []\<rparr>"

text \<open>
  Entering \<open>generating\<close>: the entry action assigns \<open>error: null\<close>, then \<open>callGrok\<close>
  is invoked with input \<open>context.lastGenerated || ''\<close>.
\<close>

definition enterGenerating :: "Snapshot \<Rightarrow> Snapshot" where
  "enterGenerating snap =
     (let c = (ctx snap)\<lparr>Context.error := None\<rparr>;
          input = (case lastGenerated c of None \<Rightarrow> [] | Some t \<Rightarrow> t)
      in \<lparr>state = generating, ctx = c, invoked = [input]\<rparr>)"

text \<open>One transition; an event with no handler in the active state is dropped.\<close>

fun transition :: "Snapshot \<Rightarrow> Events \<Rightarrow> Snapshot" where
  "transition snap ev =
     (case (state snap, ev) of
        (idle, GENERATE _) \<Rightarrow> enterGenerating snap
      | (generating, done_callGrok out) \<Rightarrow>
          \<lparr>state = success, ctx = (ctx snap)\<lparr>lastGenerated := Some out\<rparr>, invoked = []\<rparr>
      | (generating, error_callGrok m) \<Rightarrow>
          \<lparr>state = failure,
           ctx = (ctx snap)\<lparr>Context.error :=
                   Some (case m of None \<Rightarrow> ascii ''Unknown error''
                         | Some t \<Rightarrow> if t \<noteq> [] then t else ascii ''Unknown error'')\<rparr>,
           invoked = []\<rparr>
      | (success, CONTINUE) \<Rightarrow> snap\<lparr>state := idle\<rparr>
      | (failure, RETRY) \<Rightarrow> enterGenerating snap
      | (failure, CANCEL) \<Rightarrow> snap\<lparr>state := idle\<rparr>
      | _ \<Rightarrow> snap)"

declare transition.simps [simp del]

definition run :: "Events list \<Rightarrow> Snapshot" where
  "run evs = foldl transition initialSnapshot evs"

section \<open>JSON values\<close>

text \<open>
  What \<open>JSON.parse\<close> and \<open>response.json()\<close> give. A number is kept as the string that
  \<open>String\<close> makes of it, which is \<open>0\<close> for zero and minus zero alike; an object as
  its own properties, each name once.
\<close>

datatype json =
    JNull
  | JBool bool
  | JNumber jsstring
  | JString jsstring
  | JArray "json list"
  | JObject "(jsstring \<times> json) list"

text \<open>The value of an expression is a JSON value or \<open>undefined\<close> (\<open>None\<close>).\<close>

fun truthy :: "json option \<Rightarrow> bool" where
  "truthy None = False"
| "truthy (Some JNull) = False"
| "truthy (Some (JBool b)) = b"
| "truthy (Some (JNumber r)) = (r \<noteq> ascii ''0'')"
| "truthy (Some (JString t)) = (t \<noteq> [])"
| "truthy (Some (JArray xs)) = True"
| "truthy (Some (JObject kvs)) = True"

text \<open>
  \<open>v.name\<close> on a value that is neither \<open>null\<close> nor \<open>undefined\<close>, for a name that no
  built-in prototype defines (the names read below are \<open>choices\<close>, \<open>message\<close>,
  \<open>content\<close>, \<open>text\<close> and \<open>error\<close>): an object gives its own property, anything else
  \<open>undefined\<close>.
\<close>

fun getProp :: "jsstring \<Rightarrow> json \<Rightarrow> json option" where
  "getProp name (JObject kvs) = map_of kvs name"
| "getProp name _ = None"

text \<open>
  \<open>v[0]\<close> on such a value: the first element of an array, the first code unit of a
  string, the property \<open>0\<close> of an object.
\<close>

fun getFirst :: "json \<Rightarrow> json option" where
  "getFirst (JArray []) = None"
| "getFirst (JArray (x # xs)) = Some x"
| "getFirst (JString []) = None"
| "getFirst (JString (c # cs)) = Some (JString [c])"
| "getFirst (JObject kvs) = map_of kvs (ascii ''0'')"
| "getFirst _ = None"

text \<open>\<open>v?.p\<close>: \<open>undefined\<close> when \<open>v\<close> is \<open>null\<close> or \<open>undefined\<close>, the read otherwise.\<close>

fun optional :: "json option \<Rightarrow> (json \<Rightarrow> json option) \<Rightarrow> json option" where
  "optional None read = None"
| "optional (Some JNull) read = None"
| "optional (Some v) read = read v"

text \<open>\<open>a ?? b\<close> and \<open>a || b\<close>.\<close>

fun nullish :: "json option \<Rightarrow> json option \<Rightarrow> json option" where
  "nullish None b = b"
| "nullish (Some JNull) b = b"
| "nullish (Some v) b = Some v"

definition orElse :: "json option \<Rightarrow> json option \<Rightarrow> json option" where
  "orElse a b = (if truthy a then a else b)"

text \<open>
  The string a value becomes when it is concatenated to a string or made the message of
  an \<open>Error\<close>; \<open>None\<close> when the conversion throws a \<open>TypeError\<close>. An array is its
  elements joined by commas, \<open>null\<close> elements empty; an object is \<open>[object Object]\<close>,
  unless it has a property \<open>toString\<close> of its own: a parsed value is never callable,
  and the conversion finds no method to call.
\<close>

fun toStr :: "json \<Rightarrow> jsstring option"
  and joinElements :: "json list \<Rightarrow> jsstring option" where
  "toStr JNull = Some (ascii ''null'')"
| "toStr (JBool b) = Some (if b then ascii ''true'' else ascii ''false'')"
| "toStr (JNumber r) = Some r"
| "toStr (JString t) = Some t"
| "toStr (JArray xs) = joinElements xs"
| "toStr (JObject kvs) =
     (if ascii ''toString'' \<in> fst ` set kvs then None else Some (ascii ''[object Object]''))"
| "joinElements [] = Some []"
| "joinElements [x] = (if x = JNull then Some [] else toStr x)"
| "joinElements (x # y # ys) =
     (case (if x = JNull then Some [] else toStr x) of
        None \<Rightarrow> None
      | Some a \<Rightarrow>
          (case joinElements (y # ys) of
             None \<Rightarrow> None
           | Some b \<Rightarrow> Some (a @ [0x2C] @ b)))"

text \<open>The messages of the engine's \<open>TypeError\<close>s below (V8's wording).\<close>

definition cannotConvertMessage :: jsstring where
  "cannotConvertMessage = ascii ''Cannot convert object to primitive value''"

definition notAFunctionMessage :: "jsstring \<Rightarrow> jsstring" where
  "notAFunctionMessage what = what @ ascii '' is not a function''"

section \<open>The history log (App.tsx)\<close>

datatype entry_type = type_user | type_ai

record HistoryEntry =
  id :: jsstring
  type :: entry_type
  content :: jsstring
  timestamp :: nat

text \<open>
  \<open>addToHistory\<close> reads the clock twice (once for the id, once for the timestamp);
  the two readings \<open>now1\<close> and \<open>now2\<close> are inputs. \<open>newEntry\<close> is the object literal,
  \<open>addToHistory\<close> the state update \<open>prev => [entry, ...prev].slice(0, 50)\<close>.
\<close>

definition newEntry :: "entry_type \<Rightarrow> jsstring \<Rightarrow> nat \<Rightarrow> nat \<Rightarrow> HistoryEntry" where
  "newEntry ty text now1 now2 =
     \<lparr>HistoryEntry.id = toString now1, type = ty,
      HistoryEntry.content = take 200 text, HistoryEntry.timestamp = now2\<rparr>"

definition addToHistory ::
  "entry_type \<Rightarrow> jsstring \<Rightarrow> nat \<Rightarrow> nat \<Rightarrow> HistoryEntry list \<Rightarrow> HistoryEntry list" where
  "addToHistory ty text now1 now2 prev = take 50 (newEntry ty text now1 now2 # prev)"

text \<open>One append call: its two arguments and the two clock readings it makes.\<close>

record append_call =
  call_type :: entry_type
  call_content :: jsstring
  call_now1 :: nat
  call_now2 :: nat

definition entryOf :: "append_call \<Rightarrow> HistoryEntry" where
  "entryOf c = newEntry (call_type c) (call_content c) (call_now1 c) (call_now2 c)"

definition appendEntry :: "HistoryEntry list \<Rightarrow> append_call \<Rightarrow> HistoryEntry list" where
  "appendEntry prev c = addToHistory (call_type c) (call_content c) (call_now1 c) (call_now2 c) prev"

definition appendAll :: "append_call list \<Rightarrow> HistoryEntry list" where
  "appendAll cs = foldl appendEntry [] cs"

text \<open>
  The above is \<open>addToHistory\<close> on its declared types. At run time the content that
  reaches it is whatever \<open>generateText\<close> returned, and \<open>content.slice(0, 200)\<close> also
  works on an array: the log can hold an entry whose content is an array.
\<close>

datatype history_item =
    StringEntry HistoryEntry
  | ArrayEntry jsstring entry_type "json list" nat

definition addToHistoryItem ::
  "entry_type \<Rightarrow> json \<Rightarrow> nat \<Rightarrow> nat \<Rightarrow> history_item list \<Rightarrow> exn + history_item list" where
  "addToHistoryItem ty v now1 now2 prev =
     (case v of
        JString t \<Rightarrow> Inr (take 50 (StringEntry (newEntry ty t now1 now2) # prev))
      | JArray xs \<Rightarrow> Inr (take 50 (ArrayEntry (toString now1) ty (take 200 xs) now2 # prev))
      | _ \<Rightarrow> Inl (TypeError (notAFunctionMessage (ascii ''content.slice''))))"

section \<open>The completion provider (App.tsx generateText, lib/api.ts)\<close>

datatype role = role_system | role_user | role_assistant

record ChatMessage =
  role :: role
  content :: jsstring

text \<open>
  What \<open>await response.json()\<close> gives: the promise rejects (the body is not JSON; the
  message of the rejection is given), or resolves with the parsed value.
\<close>

datatype body = NotJson jsstring | Json json

text \<open>
  The outcome of \<open>fetch\<close>: it rejects with a thrown value, or resolves with a
  response that is not \<open>ok\<close> (status, statusText, body, and what \<open>JSON.stringify\<close>
  makes of the parsed body), or with one that is \<open>ok\<close>.
\<close>

datatype response =
    FetchRejected exn
  | HttpNotOk nat jsstring body jsstring
  | HttpOk body

text \<open>\<open>data.choices?.[0]?.message?.content ?? ""\<close> on a \<open>data\<close> that is not \<open>null\<close>.\<close>

definition messageContent :: "json \<Rightarrow> json option" where
  "messageContent data =
     nullish
       (optional (optional (optional (getProp (ascii ''choices'') data) getFirst)
          (getProp (ascii ''message''))) (getProp (ascii ''content'')))
       (Some (JString []))"

text \<open>\<open>data.error?.message || data.error || JSON.stringify(data)\<close>, likewise.\<close>

definition errorMessage :: "json \<Rightarrow> jsstring \<Rightarrow> json option" where
  "errorMessage data stringified =
     orElse (optional (getProp (ascii ''error'') data) (getProp (ascii ''message'')))
       (orElse (getProp (ascii ''error'') data) (Some (JString stringified)))"

text \<open>
  \<open>throw new Error(v)\<close>: the message is the string \<open>v\<close> becomes; when the conversion
  throws, its \<open>TypeError\<close> is what is thrown.
\<close>

definition throwError :: "json option \<Rightarrow> exn" where
  "throwError v =
     (case v of
        None \<Rightarrow> Error []
      | Some w \<Rightarrow> (case toStr w of None \<Rightarrow> TypeError cannotConvertMessage | Some t \<Rightarrow> Error t))"

text \<open>
  \<open>generateText\<close>, given the outcome of its \<open>fetch\<close>: \<open>Inl\<close> is the thrown value
  (the outer \<open>catch\<close> logs and rethrows), \<open>Inr\<close> the returned value. The declared
  result is a string; the value returned is whatever \<open>content\<close> holds, when it is
  truthy.
\<close>

fun generateText :: "response \<Rightarrow> exn + json" where
  "generateText (FetchRejected e) = Inl e"
| "generateText (HttpNotOk st statusText b stringified) =
     (case b of
        Json data \<Rightarrow>
          if data \<noteq> JNull then Inl (throwError (errorMessage data stringified))
          else Inl (Error (if statusText \<noteq> [] then statusText
                           else ascii ''HTTP error! status: '' @ toString st))
      | NotJson m \<Rightarrow>
          Inl (Error (if statusText \<noteq> [] then statusText
                      else ascii ''HTTP error! status: '' @ toString st)))"
| "generateText (HttpOk b) =
     (case b of
        NotJson m \<Rightarrow> Inl (SyntaxError m)
      | Json data \<Rightarrow>
          if data = JNull then Inl (TypeError (nullReadMessage (ascii ''choices'')))
          else
            (case messageContent data of
               None \<Rightarrow> Inl (Error (ascii ''No content returned from API''))
             | Some text \<Rightarrow>
                 if \<not> truthy (Some text) then Inl (Error (ascii ''No content returned from API''))
                 else Inr text))"

text \<open>
  \<open>requestGrokCompletion\<close> of lib/api.ts (not called by the App): the same request,
  with \<open>data?.choices?.[0]?.message?.content ?? data?.choices?.[0]?.text ?? ''\<close> as
  text, returned with the parsed body whatever it is.
\<close>

record GrokCompletion =
  raw :: json
  text' :: "json option"

definition replyText :: "json \<Rightarrow> json option" where
  "replyText data =
     nullish
       (optional (optional (optional (optional (Some data) (getProp (ascii ''choices''))) getFirst)
          (getProp (ascii ''message''))) (getProp (ascii ''content'')))
       (nullish
          (optional (optional (optional (Some data) (getProp (ascii ''choices''))) getFirst)
             (getProp (ascii ''text'')))
          (Some (JString [])))"

fun requestGrokCompletion :: "response \<Rightarrow> exn + GrokCompletion" where
  "requestGrokCompletion (FetchRejected e) = Inl e"
| "requestGrokCompletion (HttpNotOk st statusText b stringified) =
     (let err = (case b of NotJson m \<Rightarrow> JObject [] | Json data \<Rightarrow> data)
      in if err = JNull then Inl (TypeError (nullReadMessage (ascii ''error'')))
         else Inl (throwError
                (orElse (optional (getProp (ascii ''error'') err) (getProp (ascii ''message'')))
                   (Some (JString (ascii ''Request failed '' @ toString st))))))"
| "requestGrokCompletion (HttpOk b) =
     (case b of
        NotJson m \<Rightarrow> Inl (SyntaxError m)
      | Json data \<Rightarrow> Inr \<lparr>raw = data, text' = replyText data\<rparr>)"

section \<open>The application state and its handlers (App.tsx)\<close>

record Story =
  id :: jsstring
  title :: jsstring
  content :: jsstring
  timestamp :: nat

datatype status = status_idle | status_generating | status_success | status_error

text \<open>
  The React state of \<open>App\<close> that the handlers below read or write, the editing surface
  behind \<open>editorRef\<close>, and what is pending between the suspension points of
  \<open>handleContinue\<close>:
  \<^item> \<open>delayed\<close>: activations waiting on the 500 ms timer, each with its \<open>currentText\<close>;
  \<^item> \<open>inflight\<close>: the requests \<open>generateText\<close> has sent and that have not resolved,
    each with its \<open>messages\<close>;
  \<^item> \<open>idleTimers\<close>: the pending \<open>setTimeout(() => setStatus('idle'), 2000)\<close>.
\<close>

record App =
  editor :: textarea
  theme :: jsstring
  status :: status
  error :: jsstring
  stories :: "Story list"
  history :: "history_item list"
  currentStoryId :: "jsstring option"
  generatingText :: jsstring
  delayed :: "jsstring list"
  inflight :: "ChatMessage list list"
  idleTimers :: nat

definition initialApp :: "textarea \<Rightarrow> App" where
  "initialApp ta =
     \<lparr>editor = ta, theme = ascii ''system'', status = status_idle, App.error = [],
      stories = [], history = [], currentStoryId = None, generatingText = [],
      delayed = [], inflight = [], idleTimers = 0\<rparr>"

text \<open>Removing the \<open>i\<close>-th pending item.\<close>

definition removeAt :: "nat \<Rightarrow> 'a list \<Rightarrow> 'a list" where
  "removeAt i xs = take i xs @ drop (Suc i) xs"

text \<open>
  \<open>handleContinue\<close> up to its first \<open>await\<close>. An empty or whitespace-only text throws
  and is caught at once; otherwise the user entry is recorded (\<open>addToHistory\<close> on a
  string) and the activation waits on the 500 ms timer.
\<close>

definition handleContinue :: "nat \<Rightarrow> nat \<Rightarrow> App \<Rightarrow> App" where
  "handleContinue now1 now2 s =
     (let s1 = s\<lparr>status := status_generating, App.error := [],
                 generatingText := ascii ''Initializing AI...''\<rparr>;
          currentText = getText (editor s1)
      in if trim currentText = [] then
           s1\<lparr>App.error := ascii ''Please write something first!'',
              status := status_error, generatingText := []\<rparr>
         else
           s1\<lparr>generatingText := ascii ''Reading your story...'',
              history := take 50 (StringEntry (newEntry type_user currentText now1 now2) # history s1),
              delayed := delayed s1 @ [currentText]\<rparr>)"

text \<open>The button is rendered with \<open>disabled={status === 'generating'}\<close>.\<close>

definition clickContinue :: "nat \<Rightarrow> nat \<Rightarrow> App \<Rightarrow> App" where
  "clickContinue now1 now2 s =
     (if status s = status_generating then s else handleContinue now1 now2 s)"

text \<open>
  \<open>handleContinue\<close> from the 500 ms timer to the \<open>await\<close> of \<open>generateText\<close>: the
  messages are built and the request is sent. Of the progress texts written on the way,
  the one standing at the suspension is kept.
\<close>

definition buildMessages :: "jsstring \<Rightarrow> ChatMessage list" where
  "buildMessages currentText =
     [\<lparr>role = role_system,
       ChatMessage.content = ascii
         ''You are a creative writing assistant. Continue the story naturally in the same style and tone.''\<rparr>,
      \<lparr>role = role_user,
       ChatMessage.content = ascii ''Continue this story:'' @ [0x0A, 0x0A] @ currentText\<rparr>]"

definition sendRequest :: "nat \<Rightarrow> App \<Rightarrow> App" where
  "sendRequest i s =
     (if i < length (delayed s) then
        s\<lparr>generatingText := ascii ''Generating your continuation...'',
          delayed := removeAt i (delayed s),
          inflight := inflight s @ [buildMessages (delayed s ! i)]\<rparr>
      else s)"

text \<open>
  \<open>handleContinue\<close> from the resolution of the \<open>i\<close>-th request to its end. The value
  returned is concatenated to the text of the editor (nothing is done, and nothing
  converted, while the ref is not attached), then added to the history; the status
  becomes \<open>success\<close> and the 2 s timer is set. A value thrown on the way is caught:
  what was done before it stays done.
\<close>

definition caughtMessage :: "exn \<Rightarrow> jsstring" where
  "caughtMessage err =
     (case err of Error m \<Rightarrow> m | TypeError m \<Rightarrow> m | SyntaxError m \<Rightarrow> m
      | NonError \<Rightarrow> ascii ''Unknown error'')"

definition caught :: "exn \<Rightarrow> App \<Rightarrow> App" where
  "caught err s = s\<lparr>App.error := caughtMessage err, status := status_error, generatingText := []\<rparr>"

definition insertValueAtEnd :: "json \<Rightarrow> textarea \<Rightarrow> exn + textarea" where
  "insertValueAtEnd v ta =
     (case ta of
        None \<Rightarrow> Inr None
      | Some _ \<Rightarrow>
          (case toStr v of
             None \<Rightarrow> Inl (TypeError cannotConvertMessage)
           | Some t \<Rightarrow> Inr (insertTextAtEnd t ta)))"

definition receiveResponse :: "nat \<Rightarrow> response \<Rightarrow> nat \<Rightarrow> nat \<Rightarrow> App \<Rightarrow> App" where
  "receiveResponse i r now1 now2 s =
     (if i < length (inflight s) then
        (let s1 = s\<lparr>inflight := removeAt i (inflight s)\<rparr>
         in case generateText r of
              Inl err \<Rightarrow> caught err s1
            | Inr generatedText \<Rightarrow>
                (case insertValueAtEnd generatedText (editor s1) of
                   Inl err \<Rightarrow> caught err s1
                 | Inr ta \<Rightarrow>
                     (case addToHistoryItem type_ai generatedText now1 now2 (history s1) of
                        Inl err \<Rightarrow> caught err (s1\<lparr>editor := ta\<rparr>)
                      | Inr h \<Rightarrow>
                          s1\<lparr>editor := ta, history := h, status := status_success,
                             generatingText := [], idleTimers := Suc (idleTimers s1)\<rparr>)))
      else s)"

definition idleTimerFires :: "App \<Rightarrow> App" where
  "idleTimerFires s =
     (if 0 < idleTimers s then s\<lparr>status := status_idle, idleTimers := idleTimers s - 1\<rparr>
      else s)"

text \<open>What can happen to the application, one event at a time.\<close>

datatype app_event =
    Click nat nat
  | DelayElapsed nat
  | Response nat response nat nat
  | IdleTimer

fun appStep :: "App \<Rightarrow> app_event \<Rightarrow> App" where
  "appStep s (Click now1 now2) = clickContinue now1 now2 s"
| "appStep s (DelayElapsed i) = sendRequest i s"
| "appStep s (Response i r now1 now2) = receiveResponse i r now1 now2 s"
| "appStep s IdleTimer = idleTimerFires s"

definition appRun :: "App \<Rightarrow> app_event list \<Rightarrow> App" where
  "appRun s evs = foldl appStep s evs"

subsection \<open>Stories\<close>

definition storyTitle :: "jsstring \<Rightarrow> jsstring" where
  "storyTitle text =
     (let firstLine = take 50 (takeWhile (\<lambda>c. c \<noteq> 0x0A) text)
      in if firstLine \<noteq> [] then firstLine else ascii ''Untitled Story'')"

definition saveStory :: "nat \<Rightarrow> nat \<Rightarrow> App \<Rightarrow> App" where
  "saveStory now1 now2 s =
     (let text = getText (editor s)
      in if trim text = [] then s
         else
           (let title = storyTitle text;
                newStory = \<lparr>Story.id = toString now1, title = title,
                            Story.content = text, Story.timestamp = now2\<rparr>
            in case currentStoryId s of
                 Some cur \<Rightarrow>
                   if cur \<noteq> [] then
                     s\<lparr>stories :=
                         map (\<lambda>st. if Story.id st = cur
                                   then st\<lparr>Story.content := text, title := title\<rparr> else st)
                           (stories s)\<rparr>
                   else s\<lparr>stories := newStory # stories s,
                          currentStoryId := Some (Story.id newStory)\<rparr>
               | None \<Rightarrow>
                   s\<lparr>stories := newStory # stories s,
                     currentStoryId := Some (Story.id newStory)\<rparr>))"

subsection \<open>Loading from localStorage\<close>

text \<open>
  A stored item is a string. What matters of it is what \<open>JSON.parse\<close> does with it:
  \<open>Unparsable t m\<close> is a text \<open>t\<close> that \<open>JSON.parse\<close> rejects with a \<open>SyntaxError\<close> of
  message \<open>m\<close> (the empty string is one such text); \<open>Encoded v\<close> is the JSON text of
  a value \<open>v\<close> of the declared type, as the App itself writes it; \<open>Other v\<close> is the
  JSON text of any other value \<open>v\<close> (\<open>null\<close>, a number, an object, a list of
  something else). A JSON text is never empty.
\<close>

datatype 'a stored = Unparsable jsstring jsstring | Encoded 'a | Other json

record Storage =
  ai_stories :: "Story list stored option"
  ai_history :: "history_item list stored option"
  ai_theme :: "jsstring option"

text \<open>
  The state after the mount effect: the state on its declared types, and beside it,
  for the stories and for the history, the parsed value that \<open>setStories\<close> or
  \<open>setHistory\<close> was given in their place when it is not of their type. Nothing checks
  the parsed value; what the App does with such a value afterwards is not followed.
\<close>

record Mounted =
  mounted :: App
  rawStories :: "json option"
  rawHistory :: "json option"

text \<open>
  The mount effect: stories, then history, then theme; each is skipped when
  \<open>getItem\<close> gives \<open>null\<close> or the empty string. A \<open>SyntaxError\<close> of \<open>JSON.parse\<close> is
  not caught: it ends the effect (\<open>Inl\<close>), and nothing after it is loaded.
\<close>

definition loadStories :: "Storage \<Rightarrow> Mounted \<Rightarrow> exn + Mounted" where
  "loadStories st r =
     (case ai_stories st of
        None \<Rightarrow> Inr r
      | Some (Unparsable t m) \<Rightarrow> if t \<noteq> [] then Inl (SyntaxError m) else Inr r
      | Some (Encoded v) \<Rightarrow> Inr (r\<lparr>mounted := (mounted r)\<lparr>stories := v\<rparr>\<rparr>)
      | Some (Other v) \<Rightarrow> Inr (r\<lparr>rawStories := Some v\<rparr>))"

definition loadHistory :: "Storage \<Rightarrow> Mounted \<Rightarrow> exn + Mounted" where
  "loadHistory st r =
     (case ai_history st of
        None \<Rightarrow> Inr r
      | Some (Unparsable t m) \<Rightarrow> if t \<noteq> [] then Inl (SyntaxError m) else Inr r
      | Some (Encoded v) \<Rightarrow> Inr (r\<lparr>mounted := (mounted r)\<lparr>history := v\<rparr>\<rparr>)
      | Some (Other v) \<Rightarrow> Inr (r\<lparr>rawHistory := Some v\<rparr>))"

definition loadTheme :: "Storage \<Rightarrow> Mounted \<Rightarrow> Mounted" where
  "loadTheme st r =
     (case ai_theme st of
        None \<Rightarrow> r
      | Some t \<Rightarrow> if t \<noteq> [] then r\<lparr>mounted := (mounted r)\<lparr>theme := t\<rparr>\<rparr> else r)"

definition loadFromStorage :: "Storage \<Rightarrow> App \<Rightarrow> exn + Mounted" where
  "loadFromStorage st s =
     (case loadStories st \<lparr>mounted = s, rawStories = None, rawHistory = None\<rparr> of
        Inl e \<Rightarrow> Inl e
      | Inr r1 \<Rightarrow>
          (case loadHistory st r1 of
             Inl e \<Rightarrow> Inl e
           | Inr r2 \<Rightarrow> Inr (loadTheme st r2)))"

section \<open>Facts about strings\<close>

lemma trim_empty_iff: "trim s = [] \<longleftrightarrow> (\<forall>c \<in> set s. isWhiteSpace c)"
proof
  assume "trim s = []"
  then have "dropWhile isWhiteSpace (rev (dropWhile isWhiteSpace s)) = []"
    by (simp add: trim_def)
  then have all: "\<forall>c \<in> set (dropWhile isWhiteSpace s). isWhiteSpace c"
    by (simp add: dropWhile_eq_Nil_conv)
  show "\<forall>c \<in> set s. isWhiteSpace c"
  proof (cases "dropWhile isWhiteSpace s")
    case Nil
    then show ?thesis by (simp add: dropWhile_eq_Nil_conv)
  next
    case (Cons x xs)
    then have "\<not> isWhiteSpace x"
      by (metis hd_dropWhile list.sel(1) list.distinct(1))
    with all Cons show ?thesis by simp
  qed
next
  assume "\<forall>c \<in> set s. isWhiteSpace c"
  then show "trim s = []"
    by (auto simp add: trim_def dest: set_dropWhileD)
qed

lemma endsWith_newline: "endsWith s [0x0A] \<longleftrightarrow> s \<noteq> [] \<and> last s = 0x0A"
proof (cases s rule: rev_cases)
  case Nil
  then show ?thesis by (simp add: endsWith_def)
next
  case (snoc ys y)
  then show ?thesis by (auto simp add: endsWith_def)
qed

text \<open>Normalising newlines touches carriage returns only, and leaves none.\<close>

lemma normalizeNewlines_Cons:
  "c \<noteq> 0x0D \<Longrightarrow> normalizeNewlines (c # cs) = c # normalizeNewlines cs"
  by (cases cs) simp_all

lemma normalizeNewlines_append:
  "0x0D \<notin> set a \<Longrightarrow> normalizeNewlines (a @ b) = a @ normalizeNewlines b"
  by (induction a) (simp_all add: normalizeNewlines_Cons)

lemma normalizeNewlines_id: "0x0D \<notin> set t \<Longrightarrow> normalizeNewlines t = t"
  using normalizeNewlines_append [of t "[]"] by simp

lemma normalizeNewlines_no_CR: "0x0D \<notin> set (normalizeNewlines t)"
  by (induction t rule: normalizeNewlines.induct) auto

lemma getText_Some: "getText (Some v) = normalizeNewlines v"
  by (simp add: getText_def Let_def)

lemma getText_plain: "0x0D \<notin> set t \<Longrightarrow> getText (Some t) = t"
  by (simp add: getText_Some normalizeNewlines_id)

text \<open>Two clock readings with the same decimal rendering are the same reading.\<close>

lemma digit_inj:
  assumes "a < 10" "b < 10" "(of_nat (48 + a) :: code_unit) = of_nat (48 + b)"
  shows "a = b"
proof -
  from assms(3) have "take_bit 16 (48 + a) = take_bit 16 (48 + b)"
    by (simp add: word_of_nat_eq_iff del: of_nat_add)
  moreover from assms(1,2) have "48 + a < 2 ^ 16" "48 + b < 2 ^ 16"
    by simp_all
  ultimately have "48 + a = 48 + b"
    by (simp only: take_bit_nat_eq_self)
  then show ?thesis by simp
qed

lemma toString_not_Nil: "toString n \<noteq> []"
  by (subst toString.simps) simp

lemma toString_inj: "toString a = toString b \<Longrightarrow> a = b"
proof (induction a arbitrary: b rule: toString.induct)
  case (1 a)
  show ?case
  proof (cases "a < 10")
    case True
    note a = this
    show ?thesis
    proof (cases "b < 10")
      case True
      with a "1.prems" have "(of_nat (48 + a) :: code_unit) = of_nat (48 + b)"
        by (simp only: toString.simps [of a] toString.simps [of b] if_True list.inject)
      with a True show ?thesis
        by (rule digit_inj)
    next
      case False
      with a "1.prems" have "[of_nat (48 + a)] = toString (b div 10) @ [of_nat (48 + b mod 10)]"
        by (simp only: toString.simps [of a] toString.simps [of b] if_True if_False)
      then have "toString (b div 10) = []"
        by simp
      then show ?thesis
        by (simp add: toString_not_Nil)
    qed
  next
    case False
    note a = this
    show ?thesis
    proof (cases "b < 10")
      case True
      with a "1.prems" have "toString (a div 10) @ [of_nat (48 + a mod 10)] = [of_nat (48 + b)]"
        by (simp only: toString.simps [of a] toString.simps [of b] if_True if_False)
      then have "toString (a div 10) = []"
        by simp
      then show ?thesis
        by (simp add: toString_not_Nil)
    next
      case False
      with a "1.prems" have
        "toString (a div 10) @ [of_nat (48 + a mod 10)] =
         toString (b div 10) @ [of_nat (48 + b mod 10)]"
        by (simp only: toString.simps [of a] toString.simps [of b] if_False)
      then have eq: "toString (a div 10) = toString (b div 10)"
        and d: "(of_nat (48 + a mod 10) :: code_unit) = of_nat (48 + b mod 10)"
        by (simp_all only: append1_eq_conv)
      from "1.IH" [OF a eq] have "a div 10 = b div 10" .
      moreover have "a mod 10 = b mod 10"
        by (rule digit_inj [OF _ _ d]) simp_all
      ultimately show ?thesis
        by (metis div_mult_mod_eq)
    qed
  qed
qed

section \<open>The history log\<close>

lemma appendEntry_eq: "appendEntry prev c = take 50 (entryOf c # prev)"
  by (simp add: appendEntry_def entryOf_def addToHistory_def)

lemma take_append_take: "take n (xs @ take n ys) = take n (xs @ ys)"
  by (simp add: min_def)

lemma foldl_appendEntry:
  "length h \<le> 50 \<Longrightarrow> foldl appendEntry h cs = take 50 (map entryOf (rev cs) @ h)"
proof (induction cs arbitrary: h)
  case Nil
  then show ?case by simp
next
  case (Cons c cs)
  have "length (appendEntry h c) \<le> 50"
    by (simp add: appendEntry_eq)
  then have "foldl appendEntry h (c # cs) = take 50 (map entryOf (rev cs) @ take 50 (entryOf c # h))"
    by (simp add: Cons.IH appendEntry_eq)
  also have "\<dots> = take 50 (map entryOf (rev cs) @ entryOf c # h)"
    by (rule take_append_take)
  finally show ?case by simp
qed

text \<open>The log after any calls: the entries of the last 50 calls, newest first.\<close>

lemma appendAll_eq: "appendAll cs = take 50 (map entryOf (rev cs))"
  by (simp add: appendAll_def foldl_appendEntry)

lemma appendAll_snoc: "appendAll (cs @ [c]) = take 50 (entryOf c # appendAll cs)"
  by (simp add: appendAll_def appendEntry_eq)

text \<open>
  Claim C1. After any sequence of \<open>N\<close> appends to the empty log, the log has
  \<open>min N 50\<close> entries and its head is the entry made by the most recent append. One
  more append puts its entry at the head; it keeps all earlier entries while fewer than
  50 calls were made, and drops the last (oldest) entry once the log is full.
\<close>

theorem history_bounded:
  "length (appendAll cs) = min (length cs) 50 \<and>
   (cs \<noteq> [] \<longrightarrow> hd (appendAll cs) = entryOf (last cs)) \<and>
   (length cs < 50 \<longrightarrow> appendAll (cs @ [c]) = entryOf c # appendAll cs) \<and>
   (50 \<le> length cs \<longrightarrow> appendAll (cs @ [c]) = entryOf c # butlast (appendAll cs))"
proof (intro conjI impI)
  show len: "length (appendAll cs) = min (length cs) 50"
    by (simp add: appendAll_eq)
  show "hd (appendAll cs) = entryOf (last cs)" if "cs \<noteq> []"
  proof -
    from that obtain bs b where "cs = bs @ [b]"
      by (metis rev_exhaust)
    then show ?thesis
      by (simp add: appendAll_eq)
  qed
  show "appendAll (cs @ [c]) = entryOf c # appendAll cs" if "length cs < 50"
    using that len by (simp add: appendAll_snoc)
  show "appendAll (cs @ [c]) = entryOf c # butlast (appendAll cs)" if "50 \<le> length cs"
  proof -
    from that len have "length (appendAll cs) = 50"
      by simp
    then have "take 49 (appendAll cs) = butlast (appendAll cs)"
      by (simp add: butlast_conv_take)
    then show ?thesis
      by (simp add: appendAll_snoc)
  qed
qed

theorem history_bounded_witness:
  "length (appendAll (replicate 50
      \<lparr>call_type = type_user, call_content = ascii ''Once'', call_now1 = 1, call_now2 = 1\<rparr>)) = 50 \<and>
   hd (appendAll (replicate 50
      \<lparr>call_type = type_user, call_content = ascii ''Once'', call_now1 = 1, call_now2 = 1\<rparr>)) =
     entryOf \<lparr>call_type = type_user, call_content = ascii ''Once'', call_now1 = 1, call_now2 = 1\<rparr> \<and>
   appendAll (replicate 50
      \<lparr>call_type = type_user, call_content = ascii ''Once'', call_now1 = 1, call_now2 = 1\<rparr> @
      [\<lparr>call_type = type_ai, call_content = ascii ''upon'', call_now1 = 2, call_now2 = 2\<rparr>]) =
     entryOf \<lparr>call_type = type_ai, call_content = ascii ''upon'', call_now1 = 2, call_now2 = 2\<rparr> #
     butlast (appendAll (replicate 50
      \<lparr>call_type = type_user, call_content = ascii ''Once'', call_now1 = 1, call_now2 = 1\<rparr>)) \<and>
   appendAll ([] @
      [\<lparr>call_type = type_ai, call_content = ascii ''upon'', call_now1 = 2, call_now2 = 2\<rparr>]) =
     entryOf \<lparr>call_type = type_ai, call_content = ascii ''upon'', call_now1 = 2, call_now2 = 2\<rparr> #
     appendAll []"
  using
    history_bounded [of "replicate 50
      \<lparr>call_type = type_user, call_content = ascii ''Once'', call_now1 = 1, call_now2 = 1\<rparr>"
      "\<lparr>call_type = type_ai, call_content = ascii ''upon'', call_now1 = 2, call_now2 = 2\<rparr>"]
    history_bounded [of "[]"
      "\<lparr>call_type = type_ai, call_content = ascii ''upon'', call_now1 = 2, call_now2 = 2\<rparr>"]
  by simp

text \<open>
  Claim C2. An appended text longer than 200 code units is stored as its first 200
  code units; a text of at most 200 code units is stored as it is. A later append
  changes no stored entry: behind its new head the log is the first 49 entries of the
  log before, as they were.
\<close>

theorem history_truncation:
  "(200 < length text \<longrightarrow>
      length (HistoryEntry.content (hd (addToHistory ty text now1 now2 prev))) = 200 \<and>
      prefix (HistoryEntry.content (hd (addToHistory ty text now1 now2 prev))) text) \<and>
   (length text \<le> 200 \<longrightarrow>
      HistoryEntry.content (hd (addToHistory ty text now1 now2 prev)) = text) \<and>
   tl (addToHistory ty text now1 now2 prev) = take 49 prev"
proof -
  have head: "hd (addToHistory ty text now1 now2 prev) = newEntry ty text now1 now2"
    and rest: "tl (addToHistory ty text now1 now2 prev) = take 49 prev"
    by (simp_all add: addToHistory_def)
  have stored: "HistoryEntry.content (newEntry ty text now1 now2) = take 200 text"
    by (simp add: newEntry_def)
  from head stored rest show ?thesis
    by (simp add: take_is_prefix)
qed

theorem history_truncation_witness:
  "length (HistoryEntry.content (hd (addToHistory type_ai (replicate 201 0x61) 5 6 []))) = 200 \<and>
   prefix (HistoryEntry.content (hd (addToHistory type_ai (replicate 201 0x61) 5 6 [])))
     (replicate 201 0x61) \<and>
   HistoryEntry.content (hd (addToHistory type_user (ascii ''abc'') 5 6 [])) = ascii ''abc''"
  using history_truncation [of "replicate 201 0x61" type_ai 5 6 "[]"]
    history_truncation [of "ascii ''abc''" type_user 5 6 "[]"]
  by (simp add: ascii_def)

section \<open>The editing surface\<close>

text \<open>
  Claim C4 as stated fails for a reply that holds a carriage return: the surface gives
  back the inserted text with its newlines normalised, not the reply as it was.
\<close>

theorem insert_at_end_counterexample:
  "getText (Some (ascii ''a'')) = ascii ''a'' \<and>
   getText (insertTextAtEnd [0x78, 0x0D, 0x0A, 0x79] (Some (ascii ''a''))) =
     ascii ''a'' @ [0x0A] @ [0x78, 0x0A, 0x79] \<and>
   getText (insertTextAtEnd [0x78, 0x0D, 0x0A, 0x79] (Some (ascii ''a''))) \<noteq>
     ascii ''a'' @ [0x0A] @ [0x78, 0x0D, 0x0A, 0x79]"
  by (simp add: getText_Some insertTextAtEnd_def endsWith_def ascii_def Let_def)

text \<open>
  Claim C4, amended. Let the surface give \<open>C\<close> as its content. After a reply \<open>R\<close> is
  inserted at the end, it gives \<open>C\<close>, a line feed and \<open>R'\<close> when \<open>C\<close> is not empty
  and does not end in a line feed, and \<open>C\<close> followed by \<open>R'\<close> otherwise, where \<open>R'\<close>
  is \<open>R\<close> with every CR LF pair, and then every CR left, replaced by one line feed;
  \<open>R'\<close> is \<open>R\<close> itself when \<open>R\<close> holds no carriage return.
\<close>

theorem insert_at_end:
  assumes "getText (Some V) = C"
  shows "(C \<noteq> [] \<and> last C \<noteq> 0x0A \<longrightarrow>
            getText (insertTextAtEnd R (Some V)) = C @ [0x0A] @ normalizeNewlines R) \<and>
         (C = [] \<or> last C = 0x0A \<longrightarrow>
            getText (insertTextAtEnd R (Some V)) = C @ normalizeNewlines R) \<and>
         (0x0D \<notin> set R \<longrightarrow> normalizeNewlines R = R)"
proof -
  from assms have C: "C = normalizeNewlines V"
    by (simp add: getText_Some)
  then have no_CR: "0x0D \<notin> set C"
    by (simp add: normalizeNewlines_no_CR)
  show ?thesis
  proof (cases "C \<noteq> [] \<and> last C \<noteq> 0x0A")
    case True
    then have "\<not> endsWith C [0x0A]"
      by (simp add: endsWith_newline)
    with True C have "insertTextAtEnd R (Some V) = Some ((C @ [0x0A]) @ R)"
      by (simp add: insertTextAtEnd_def Let_def)
    moreover have "normalizeNewlines ((C @ [0x0A]) @ R) = (C @ [0x0A]) @ normalizeNewlines R"
      by (rule normalizeNewlines_append) (simp add: no_CR)
    ultimately have "getText (insertTextAtEnd R (Some V)) = (C @ [0x0A]) @ normalizeNewlines R"
      by (simp only: getText_Some)
    with True show ?thesis
      by (simp add: normalizeNewlines_id)
  next
    case False
    then have "C = [] \<or> endsWith C [0x0A]"
      by (auto simp add: endsWith_newline)
    with C have "insertTextAtEnd R (Some V) = Some (C @ R)"
      by (auto simp add: insertTextAtEnd_def Let_def)
    moreover have "normalizeNewlines (C @ R) = C @ normalizeNewlines R"
      by (rule normalizeNewlines_append) (rule no_CR)
    ultimately have "getText (insertTextAtEnd R (Some V)) = C @ normalizeNewlines R"
      by (simp only: getText_Some)
    with False show ?thesis
      by (auto simp add: normalizeNewlines_id)
  qed
qed

theorem insert_at_end_witness:
  "getText (insertTextAtEnd (ascii ''the hero arrived.'') (Some (ascii ''Once upon a time''))) =
     ascii ''Once upon a time'' @ [0x0A] @ ascii ''the hero arrived.'' \<and>
   getText (insertTextAtEnd [0x78, 0x0D, 0x79] (Some (ascii ''a'' @ [0x0D, 0x0A]))) =
     ascii ''a'' @ [0x0A] @ [0x78, 0x0A, 0x79] \<and>
   getText (insertTextAtEnd (ascii ''b'') (Some [])) = ascii ''b''"
proof -
  have 1: "getText (Some (ascii ''Once upon a time'')) = ascii ''Once upon a time''"
    and 2: "getText (Some (ascii ''a'' @ [0x0D, 0x0A])) = ascii ''a'' @ [0x0A]"
    and 3: "getText (Some []) = []"
    by (simp_all add: getText_Some ascii_def)
  have plain: "0x0D \<notin> set (ascii ''the hero arrived.'')" "0x0D \<notin> set (ascii ''b'')"
    by (simp_all add: ascii_def)
  have cr: "normalizeNewlines [0x78, 0x0D, 0x79] = [0x78, 0x0A, 0x79]"
    by simp
  have open_end: "ascii ''Once upon a time'' \<noteq> [] \<and> last (ascii ''Once upon a time'') \<noteq> 0x0A"
    by (simp add: ascii_def)
  have closed_end: "ascii ''a'' @ [0x0A] = [] \<or> last (ascii ''a'' @ [0x0A]) = 0x0A"
    by simp
  from insert_at_end [OF 1, of "ascii ''the hero arrived.''"] open_end plain(1)
  have a: "getText (insertTextAtEnd (ascii ''the hero arrived.'')
      (Some (ascii ''Once upon a time''))) =
     ascii ''Once upon a time'' @ [0x0A] @ ascii ''the hero arrived.''"
    by metis
  from insert_at_end [OF 2, of "[0x78, 0x0D, 0x79]"] closed_end cr
  have b: "getText (insertTextAtEnd [0x78, 0x0D, 0x79] (Some (ascii ''a'' @ [0x0D, 0x0A]))) =
     (ascii ''a'' @ [0x0A]) @ [0x78, 0x0A, 0x79]"
    by metis
  from insert_at_end [OF 3, of "ascii ''b''"] plain(2)
  have c: "getText (insertTextAtEnd (ascii ''b'') (Some [])) = [] @ ascii ''b''"
    by metis
  from a b c show ?thesis
    by simp
qed

section \<open>Generation requests in the application\<close>

text \<open>
  Claim C3. When the text of the editing surface is empty or consists of white space
  only, \<open>handleContinue\<close> ends with status \<open>error\<close> and the message asking the user
  to write something; it appends nothing to the history and leaves nothing pending:
  no activation waits to send a request and no request is sent.
\<close>

theorem empty_text_rejected:
  assumes "\<forall>c \<in> set (getText (editor s)). isWhiteSpace c"
  shows "status (handleContinue now1 now2 s) = status_error \<and>
         App.error (handleContinue now1 now2 s) = ascii ''Please write something first!'' \<and>
         history (handleContinue now1 now2 s) = history s \<and>
         delayed (handleContinue now1 now2 s) = delayed s \<and>
         inflight (handleContinue now1 now2 s) = inflight s"
proof -
  from assms have "trim (getText (editor s)) = []"
    by (simp add: trim_empty_iff)
  then show ?thesis
    by (simp add: handleContinue_def)
qed

theorem empty_text_rejected_witness:
  "status (handleContinue 5 6 (initialApp (Some [0x20, 0x0A]))) = status_error \<and>
   App.error (handleContinue 5 6 (initialApp (Some [0x20, 0x0A]))) =
     ascii ''Please write something first!'' \<and>
   history (handleContinue 5 6 (initialApp (Some [0x20, 0x0A]))) = [] \<and>
   delayed (handleContinue 5 6 (initialApp (Some [0x20, 0x0A]))) = [] \<and>
   inflight (handleContinue 5 6 (initialApp (Some [0x20, 0x0A]))) = []"
  using empty_text_rejected [of "initialApp (Some [0x20, 0x0A])" 5 6]
  by (simp add: initialApp_def getText_Some isWhiteSpace_def)

text \<open>
  A value is returned only for an \<open>ok\<close> response whose body is JSON and not \<open>null\<close>,
  and it is the truthy value found as message content.
\<close>

lemma generateText_returns:
  "generateText r = Inr v \<longleftrightarrow>
     (\<exists>data. r = HttpOk (Json data) \<and> data \<noteq> JNull \<and>
        messageContent data = Some v \<and> truthy (Some v))"
proof (cases r)
  case (FetchRejected e)
  then show ?thesis by simp
next
  case (HttpNotOk st statusText b stringified)
  then show ?thesis by (cases b) simp_all
next
  case (HttpOk b)
  then show ?thesis by (cases b) (auto split: option.splits)
qed

text \<open>
  When the message content is missing, \<open>null\<close> or falsy, or the body is \<open>null\<close> or not
  JSON, the activation ends with status \<open>error\<close>; the editor and the history are left as
  they were and no timer back to \<open>idle\<close> is set.
\<close>

lemma falsy_content_fails:
  assumes "i < length (inflight s)"
      and "\<forall>data. b = Json data \<and> data \<noteq> JNull \<longrightarrow> \<not> truthy (messageContent data)"
  shows "status (receiveResponse i (HttpOk b) now1 now2 s) = status_error \<and>
         history (receiveResponse i (HttpOk b) now1 now2 s) = history s \<and>
         editor (receiveResponse i (HttpOk b) now1 now2 s) = editor s \<and>
         idleTimers (receiveResponse i (HttpOk b) now1 now2 s) = idleTimers s"
proof -
  have "\<exists>e. generateText (HttpOk b) = Inl e"
  proof (cases "generateText (HttpOk b)")
    case (Inl e)
    then show ?thesis by blast
  next
    case (Inr v)
    then have "\<exists>data. HttpOk b = HttpOk (Json data) \<and> data \<noteq> JNull \<and>
        messageContent data = Some v \<and> truthy (Some v)"
      by (simp only: generateText_returns)
    then obtain data where "b = Json data" "data \<noteq> JNull" "messageContent data = Some v"
      "truthy (Some v)"
      by auto
    with assms(2) show ?thesis by auto
  qed
  then obtain e where "generateText (HttpOk b) = Inl e"
    by blast
  with assms(1) show ?thesis
    by (simp add: receiveResponse_def caught_def)
qed

text \<open>
  Claim C6. The check made on the reply is \<open>if (!text)\<close>: a message content that is
  truthy and not a string passes it. With an empty array as content no text can be
  read from the response, yet \<open>generateText\<close> returns the array, the array is joined to
  the editor's text and put into the history (an array has \<open>slice\<close>), and the
  activation ends with status \<open>success\<close>.
\<close>

theorem array_content_ends_in_success:
  "generateText (HttpOk (Json (JObject [(ascii ''choices'',
      JArray [JObject [(ascii ''message'', JObject [(ascii ''content'', JArray [])])]])]))) =
     Inr (JArray []) \<and>
   status (receiveResponse 0 (HttpOk (Json (JObject [(ascii ''choices'',
      JArray [JObject [(ascii ''message'', JObject [(ascii ''content'', JArray [])])]])]))) 7 8
      ((initialApp (Some (ascii ''Once'')))\<lparr>inflight := [buildMessages (ascii ''Once'')]\<rparr>)) =
     status_success \<and>
   history (receiveResponse 0 (HttpOk (Json (JObject [(ascii ''choices'',
      JArray [JObject [(ascii ''message'', JObject [(ascii ''content'', JArray [])])]])]))) 7 8
      ((initialApp (Some (ascii ''Once'')))\<lparr>inflight := [buildMessages (ascii ''Once'')]\<rparr>)) =
     [ArrayEntry (toString 7) type_ai [] 8] \<and>
   editor (receiveResponse 0 (HttpOk (Json (JObject [(ascii ''choices'',
      JArray [JObject [(ascii ''message'', JObject [(ascii ''content'', JArray [])])]])]))) 7 8
      ((initialApp (Some (ascii ''Once'')))\<lparr>inflight := [buildMessages (ascii ''Once'')]\<rparr>)) =
     Some (ascii ''Once'' @ [0x0A])"
proof -
  let ?body = "JObject [(ascii ''choices'',
      JArray [JObject [(ascii ''message'', JObject [(ascii ''content'', JArray [])])]])]"
  have content: "messageContent ?body = Some (JArray [])"
    by (simp add: messageContent_def ascii_def)
  then have returned: "generateText (HttpOk (Json ?body)) = Inr (JArray [])"
    by simp
  have inserted: "insertValueAtEnd (JArray []) (Some (ascii ''Once'')) = Inr (Some (ascii ''Once'' @ [0x0A]))"
    by (simp add: insertValueAtEnd_def insertTextAtEnd_def endsWith_def ascii_def Let_def)
  have added: "addToHistoryItem type_ai (JArray []) 7 8 [] = Inr [ArrayEntry (toString 7) type_ai [] 8]"
    by (simp add: addToHistoryItem_def)
  from returned inserted added show ?thesis
    by (simp add: receiveResponse_def initialApp_def)
qed

text \<open>
  The other values that pass the check (\<open>true\<close>, a number but zero, an object) have no
  \<open>slice\<close>: their text is put into the editor, then \<open>addToHistory\<close> throws and the
  activation ends with status \<open>error\<close>.
\<close>

lemma addToHistoryItem_string:
  "addToHistoryItem ty (JString t) now1 now2 (map StringEntry prev) =
     Inr (map StringEntry (addToHistory ty t now1 now2 prev))"
  by (simp add: addToHistoryItem_def addToHistory_def take_map)

lemma addToHistoryItem_throws:
  "(\<exists>e. addToHistoryItem ty v now1 now2 prev = Inl e) \<longleftrightarrow>
     (\<forall>t. v \<noteq> JString t) \<and> (\<forall>xs. v \<noteq> JArray xs)"
  by (cases v) (simp_all add: addToHistoryItem_def)

text \<open>
  The helper of lib/api.ts makes no check at all: on a response without choices it
  returns normally, with the empty string as text.
\<close>

lemma requestGrokCompletion_empty_text:
  "requestGrokCompletion (HttpOk (Json (JObject [(ascii ''choices'', JArray [])]))) =
     Inr \<lparr>raw = JObject [(ascii ''choices'', JArray [])], text' = Some (JString [])\<rparr>"
  by (simp add: replyText_def ascii_def)

section \<open>One request at a time\<close>

lemma run_snoc: "run (evs @ [ev]) = transition (run evs) ev"
  by (simp add: run_def)

text \<open>What holds of every snapshot the machine reaches.\<close>

lemma run_invariant:
  "(state (run evs) = generating \<or> state (run evs) = success \<longrightarrow>
      Context.error (ctx (run evs)) = None) \<and>
   (state (run evs) = failure \<longrightarrow> Context.error (ctx (run evs)) \<noteq> None) \<and>
   (state (run evs) = generating \<longrightarrow> length (invoked (run evs)) = 1) \<and>
   (state (run evs) \<noteq> generating \<longrightarrow> invoked (run evs) = [])"
proof (induction evs rule: rev_induct)
  case Nil
  show ?case
    by (simp add: run_def initialSnapshot_def)
next
  case (snoc ev evs)
  then show ?case
    by (cases ev; cases "state (run evs)")
       (simp_all add: run_snoc transition.simps enterGenerating_def Let_def)
qed

text \<open>
  In the state machine a \<open>GENERATE\<close> that arrives in \<open>generating\<close> has no handler:
  the snapshot stays as it is, and at most one invoked actor is ever running.
\<close>

lemma machine_single_flight:
  "length (invoked (run evs)) \<le> 1 \<and>
   (state (run evs) = generating \<longrightarrow> transition (run evs) (GENERATE p) = run evs)"
  using run_invariant [of evs]
  by (cases "state (run evs)") (simp_all add: transition.simps)

text \<open>In the application the button is disabled while the status is \<open>generating\<close>.\<close>

lemma clickContinue_generating:
  "status s = status_generating \<Longrightarrow> clickContinue now1 now2 s = s"
  by (simp add: clickContinue_def)

text \<open>
  Claim C9. The application does not keep to one request at a time. The timer that a
  successful generation sets resets the status to \<open>idle\<close> after 2 s whatever the status
  is by then. Below, a first generation succeeds; a second is started and its request
  is sent; the timer of the first fires and the status is \<open>idle\<close> with that request
  still unresolved; the button is enabled again, a third generation is started, and
  its request is sent while the second is unresolved: two requests are pending.
\<close>

theorem stale_idle_timer_second_request:
  "status (appRun (initialApp (Some (ascii ''Once'')))
     [Click 1 1, DelayElapsed 0,
      Response 0 (HttpOk (Json (JObject [(ascii ''choices'',
        JArray [JObject [(ascii ''message'',
          JObject [(ascii ''content'', JString (ascii ''upon''))])]])]))) 2 2,
      Click 3 3, DelayElapsed 0, IdleTimer]) = status_idle \<and>
   length (inflight (appRun (initialApp (Some (ascii ''Once'')))
     [Click 1 1, DelayElapsed 0,
      Response 0 (HttpOk (Json (JObject [(ascii ''choices'',
        JArray [JObject [(ascii ''message'',
          JObject [(ascii ''content'', JString (ascii ''upon''))])]])]))) 2 2,
      Click 3 3, DelayElapsed 0, IdleTimer])) = 1 \<and>
   length (inflight (appRun (initialApp (Some (ascii ''Once'')))
     [Click 1 1, DelayElapsed 0,
      Response 0 (HttpOk (Json (JObject [(ascii ''choices'',
        JArray [JObject [(ascii ''message'',
          JObject [(ascii ''content'', JString (ascii ''upon''))])]])]))) 2 2,
      Click 3 3, DelayElapsed 0, IdleTimer, Click 4 4, DelayElapsed 0])) = 2"
  by (simp add: appRun_def initialApp_def clickContinue_def handleContinue_def sendRequest_def
      receiveResponse_def idleTimerFires_def getText_Some trim_def isWhiteSpace_def ascii_def
      messageContent_def insertValueAtEnd_def addToHistoryItem_def insertTextAtEnd_def
      endsWith_def removeAt_def Let_def)

section \<open>The error field of the state machine\<close>

text \<open>
  Claim C8 as stated fails: after a failed call, \<open>CANCEL\<close> leads to \<open>idle\<close> with the
  error of the failure still in the context.
\<close>

theorem cancel_keeps_error_counterexample:
  "state (run [GENERATE None, error_callGrok (Some (ascii ''Not implemented'')), CANCEL]) = idle \<and>
   Context.error
     (ctx (run [GENERATE None, error_callGrok (Some (ascii ''Not implemented'')), CANCEL])) =
     Some (ascii ''Not implemented'')"
  by (simp add: run_def transition.simps initialSnapshot_def enterGenerating_def ascii_def)

text \<open>
  Claim C8, amended. In every snapshot the machine reaches, \<open>error\<close> is \<open>null\<close> while
  the state is \<open>generating\<close> or \<open>success\<close> and is set while it is \<open>failure\<close>. Every
  transition that enters \<open>generating\<close> clears \<open>error\<close>. \<open>CANCEL\<close> in \<open>failure\<close> changes
  the state to \<open>idle\<close> and nothing else: the error stays until the next entry into
  \<open>generating\<close>.
\<close>

theorem error_field:
  "(state (run evs) = generating \<or> state (run evs) = success \<longrightarrow>
      Context.error (ctx (run evs)) = None) \<and>
   (state (run evs) = failure \<longrightarrow> Context.error (ctx (run evs)) \<noteq> None) \<and>
   (state snap \<noteq> generating \<and> state (transition snap ev) = generating \<longrightarrow>
      Context.error (ctx (transition snap ev)) = None) \<and>
   (state snap = failure \<longrightarrow> transition snap CANCEL = snap\<lparr>state := idle\<rparr>)"
proof -
  have enter: "Context.error (ctx (transition snap ev)) = None"
    if "state snap \<noteq> generating" "state (transition snap ev) = generating"
    using that
    by (cases ev; cases "state snap") (simp_all add: transition.simps enterGenerating_def Let_def)
  have cancel: "transition snap CANCEL = snap\<lparr>state := idle\<rparr>" if "state snap = failure"
    using that by (simp add: transition.simps)
  from run_invariant [of evs] enter cancel show ?thesis
    by simp
qed

theorem error_field_witness:
  "Context.error (ctx (run [GENERATE None])) = None \<and>
   Context.error (ctx (run [GENERATE None, done_callGrok (ascii ''upon'')])) = None \<and>
   Context.error (ctx (run [GENERATE None, error_callGrok None])) = Some (ascii ''Unknown error'') \<and>
   Context.error (ctx (transition initialSnapshot (GENERATE None))) = None \<and>
   transition (run [GENERATE None, error_callGrok None]) CANCEL =
     (run [GENERATE None, error_callGrok None])\<lparr>state := idle\<rparr>"
  using error_field [of "[GENERATE None]" initialSnapshot "GENERATE None"]
    error_field [of "[GENERATE None, done_callGrok (ascii ''upon'')]" initialSnapshot "GENERATE None"]
    error_field [of "[GENERATE None, error_callGrok None]"
      "run [GENERATE None, error_callGrok None]" RETRY]
  by (simp add: run_def transition.simps initialSnapshot_def enterGenerating_def)

section \<open>Saving a story\<close>

lemma saveStory_blank:
  "\<forall>c \<in> set (getText (editor s)). isWhiteSpace c \<Longrightarrow> saveStory now1 now2 s = s"
  by (simp add: saveStory_def trim_empty_iff [symmetric])

lemma saveStory_update:
  assumes "\<not> (\<forall>c \<in> set (getText (editor s)). isWhiteSpace c)"
      and "currentStoryId s = Some cur" and "cur \<noteq> []"
  shows "saveStory now1 now2 s =
           s\<lparr>stories :=
               map (\<lambda>st. if Story.id st = cur
                         then st\<lparr>Story.content := getText (editor s),
                                title := storyTitle (getText (editor s))\<rparr>
                         else st) (stories s)\<rparr>"
proof -
  from assms(1) have "trim (getText (editor s)) \<noteq> []"
    by (simp add: trim_empty_iff)
  with assms(2,3) show ?thesis
    by (simp add: saveStory_def Let_def)
qed

lemma saveStory_create:
  assumes "\<not> (\<forall>c \<in> set (getText (editor s)). isWhiteSpace c)"
      and "currentStoryId s = None \<or> currentStoryId s = Some []"
  shows "saveStory now1 now2 s =
           s\<lparr>stories :=
               \<lparr>Story.id = toString now1, title = storyTitle (getText (editor s)),
                Story.content = getText (editor s), Story.timestamp = now2\<rparr> # stories s,
             currentStoryId := Some (toString now1)\<rparr>"
proof -
  from assms(1) have "trim (getText (editor s)) \<noteq> []"
    by (simp add: trim_empty_iff)
  with assms(2) show ?thesis
    by (auto simp add: saveStory_def Let_def)
qed

text \<open>
  Claim C5 as stated fails: with a text to save and a current id that no story of the
  collection has, nothing is created and the collection stays as it was.
\<close>

theorem save_unmatched_id_counterexample:
  "stories (saveStory 5 6
      ((initialApp (Some (ascii ''Chapter One'')))\<lparr>currentStoryId := Some (ascii ''7'')\<rparr>)) = [] \<and>
   currentStoryId (saveStory 5 6
      ((initialApp (Some (ascii ''Chapter One'')))\<lparr>currentStoryId := Some (ascii ''7'')\<rparr>)) =
     Some (ascii ''7'')"
  by (simp add: saveStory_def initialApp_def getText_Some trim_def isWhiteSpace_def ascii_def
      Let_def)

text \<open>
  Claim C5, amended. Saving an empty or white-space-only text changes nothing. Saving
  any other text while the current id is set (not \<open>null\<close> and not the empty string)
  rewrites the content and the title of every story with that id, in place; the size
  of the collection and the current id stay as they are, also when no story has that
  id. Saving it while the current id is not set puts a new story at the head of the
  collection, which grows by one; its id is the decimal rendering of the clock reading
  and becomes the current id; that id is new to the collection when every id in the
  collection renders an earlier reading.
\<close>

theorem save_story:
  "((\<forall>c \<in> set (getText (editor s)). isWhiteSpace c) \<longrightarrow> saveStory now1 now2 s = s) \<and>
   (\<not> (\<forall>c \<in> set (getText (editor s)). isWhiteSpace c) \<and>
    currentStoryId s = Some cur \<and> cur \<noteq> [] \<longrightarrow>
      stories (saveStory now1 now2 s) =
        map (\<lambda>st. if Story.id st = cur
                  then st\<lparr>Story.content := getText (editor s),
                         title := storyTitle (getText (editor s))\<rparr>
                  else st) (stories s) \<and>
      length (stories (saveStory now1 now2 s)) = length (stories s) \<and>
      currentStoryId (saveStory now1 now2 s) = Some cur \<and>
      (cur \<notin> Story.id ` set (stories s) \<longrightarrow> saveStory now1 now2 s = s)) \<and>
   (\<not> (\<forall>c \<in> set (getText (editor s)). isWhiteSpace c) \<and>
    (currentStoryId s = None \<or> currentStoryId s = Some []) \<longrightarrow>
      stories (saveStory now1 now2 s) =
        \<lparr>Story.id = toString now1, title = storyTitle (getText (editor s)),
         Story.content = getText (editor s), Story.timestamp = now2\<rparr> # stories s \<and>
      length (stories (saveStory now1 now2 s)) = Suc (length (stories s)) \<and>
      currentStoryId (saveStory now1 now2 s) = Some (toString now1) \<and>
      ((\<forall>st \<in> set (stories s). \<exists>t < now1. Story.id st = toString t) \<longrightarrow>
         toString now1 \<notin> Story.id ` set (stories s)))"
proof (intro conjI impI)
  assume "\<forall>c \<in> set (getText (editor s)). isWhiteSpace c"
  then show "saveStory now1 now2 s = s"
    by (rule saveStory_blank)
next
  assume a: "\<not> (\<forall>c \<in> set (getText (editor s)). isWhiteSpace c) \<and>
    currentStoryId s = Some cur \<and> cur \<noteq> []"
  then have eq: "saveStory now1 now2 s =
           s\<lparr>stories :=
               map (\<lambda>st. if Story.id st = cur
                         then st\<lparr>Story.content := getText (editor s),
                                title := storyTitle (getText (editor s))\<rparr>
                         else st) (stories s)\<rparr>"
    by (intro saveStory_update) simp_all
  show "stories (saveStory now1 now2 s) =
        map (\<lambda>st. if Story.id st = cur
                  then st\<lparr>Story.content := getText (editor s),
                         title := storyTitle (getText (editor s))\<rparr>
                  else st) (stories s)"
    by (simp add: eq)
  show "length (stories (saveStory now1 now2 s)) = length (stories s)"
    by (simp add: eq)
  from a show "currentStoryId (saveStory now1 now2 s) = Some cur"
    by (simp add: eq)
  show "saveStory now1 now2 s = s" if "cur \<notin> Story.id ` set (stories s)"
  proof -
    from that have
      "map (\<lambda>st. if Story.id st = cur
                then st\<lparr>Story.content := getText (editor s),
                       title := storyTitle (getText (editor s))\<rparr>
                else st) (stories s) = stories s"
      by (intro map_idI) auto
    then show ?thesis
      by (simp add: eq)
  qed
next
  assume a: "\<not> (\<forall>c \<in> set (getText (editor s)). isWhiteSpace c) \<and>
    (currentStoryId s = None \<or> currentStoryId s = Some [])"
  then have eq: "saveStory now1 now2 s =
           s\<lparr>stories :=
               \<lparr>Story.id = toString now1, title = storyTitle (getText (editor s)),
                Story.content = getText (editor s), Story.timestamp = now2\<rparr> # stories s,
             currentStoryId := Some (toString now1)\<rparr>"
    by (intro saveStory_create) simp_all
  show "stories (saveStory now1 now2 s) =
        \<lparr>Story.id = toString now1, title = storyTitle (getText (editor s)),
         Story.content = getText (editor s), Story.timestamp = now2\<rparr> # stories s"
    by (simp add: eq)
  show "length (stories (saveStory now1 now2 s)) = Suc (length (stories s))"
    by (simp add: eq)
  show "currentStoryId (saveStory now1 now2 s) = Some (toString now1)"
    by (simp add: eq)
  show "toString now1 \<notin> Story.id ` set (stories s)"
    if earlier: "\<forall>st \<in> set (stories s). \<exists>t < now1. Story.id st = toString t"
  proof
    assume "toString now1 \<in> Story.id ` set (stories s)"
    then obtain st where st: "st \<in> set (stories s)" "Story.id st = toString now1"
      by auto
    with earlier obtain t where "t < now1" "Story.id st = toString t"
      by blast
    with st(2) have "toString t = toString now1" by simp
    then have "t = now1" by (rule toString_inj)
    with \<open>t < now1\<close> show False by simp
  qed
qed

theorem save_story_witness:
  "saveStory 5 6 (initialApp (Some [0x20])) = initialApp (Some [0x20]) \<and>
   stories (saveStory 8 9
      ((initialApp (Some (ascii ''Chapter One'' @ [0x0A] @ ascii ''It was raining.'')))
         \<lparr>stories := [\<lparr>Story.id = toString 7, title = ascii ''old'',
                       Story.content = ascii ''old'', Story.timestamp = 7\<rparr>],
          currentStoryId := Some (toString 7)\<rparr>)) =
     [\<lparr>Story.id = toString 7, title = ascii ''Chapter One'',
       Story.content = ascii ''Chapter One'' @ [0x0A] @ ascii ''It was raining.'',
       Story.timestamp = 7\<rparr>] \<and>
   stories (saveStory 8 9
      ((initialApp (Some (ascii ''Chapter One'' @ [0x0A] @ ascii ''It was raining.'')))
         \<lparr>stories := [\<lparr>Story.id = toString 7, title = ascii ''old'',
                       Story.content = ascii ''old'', Story.timestamp = 7\<rparr>]\<rparr>)) =
     [\<lparr>Story.id = toString 8, title = ascii ''Chapter One'',
       Story.content = ascii ''Chapter One'' @ [0x0A] @ ascii ''It was raining.'',
       Story.timestamp = 9\<rparr>,
      \<lparr>Story.id = toString 7, title = ascii ''old'',
       Story.content = ascii ''old'', Story.timestamp = 7\<rparr>] \<and>
   toString 8 \<noteq> toString 7 \<and>
   saveStory 8 9
      ((initialApp (Some (ascii ''Chapter One'' @ [0x0A] @ ascii ''It was raining.'')))
         \<lparr>currentStoryId := Some (toString 7)\<rparr>) =
     (initialApp (Some (ascii ''Chapter One'' @ [0x0A] @ ascii ''It was raining.'')))
         \<lparr>currentStoryId := Some (toString 7)\<rparr>"
proof -
  let ?text = "ascii ''Chapter One'' @ [0x0A] @ ascii ''It was raining.''"
  let ?old = "\<lparr>Story.id = toString 7, title = ascii ''old'',
                Story.content = ascii ''old'', Story.timestamp = 7\<rparr>"
  let ?s1 = "initialApp (Some [0x20])"
  let ?s2 = "(initialApp (Some ?text))\<lparr>stories := [?old], currentStoryId := Some (toString 7)\<rparr>"
  let ?s3 = "(initialApp (Some ?text))\<lparr>stories := [?old]\<rparr>"
  have title: "storyTitle ?text = ascii ''Chapter One''"
    by (simp add: storyTitle_def ascii_def)
  have read: "getText (Some ?text) = ?text"
    by (rule getText_plain) (simp add: ascii_def)
  have blank: "\<forall>c \<in> set (getText (editor ?s1)). isWhiteSpace c"
    by (simp add: initialApp_def getText_Some isWhiteSpace_def)
  have text2: "\<not> (\<forall>c \<in> set (getText (editor ?s2)). isWhiteSpace c)"
    by (simp add: initialApp_def getText_Some isWhiteSpace_def ascii_def)
  have text3: "\<not> (\<forall>c \<in> set (getText (editor ?s3)). isWhiteSpace c)"
    by (simp add: initialApp_def getText_Some isWhiteSpace_def ascii_def)
  have cur2: "currentStoryId ?s2 = Some (toString 7)" "toString 7 \<noteq> []"
    by (simp_all add: toString_not_Nil)
  have cur3: "currentStoryId ?s3 = None \<or> currentStoryId ?s3 = Some []"
    by (simp add: initialApp_def)
  have earlier: "\<forall>st \<in> set (stories ?s3). \<exists>t < 8. Story.id st = toString t"
    by (auto intro: exI [of _ 7])
  from save_story [of ?s1 5 6] blank have 1: "saveStory 5 6 ?s1 = ?s1"
    by blast
  from save_story [of ?s2 8 9 "toString 7"] text2 cur2 have
    "stories (saveStory 8 9 ?s2) =
       map (\<lambda>st. if Story.id st = toString 7
                 then st\<lparr>Story.content := getText (editor ?s2),
                        title := storyTitle (getText (editor ?s2))\<rparr>
                 else st) (stories ?s2)"
    by blast
  then have 2: "stories (saveStory 8 9 ?s2) =
      [\<lparr>Story.id = toString 7, title = ascii ''Chapter One'', Story.content = ?text,
        Story.timestamp = 7\<rparr>]"
    using title read by (simp add: initialApp_def)
  from save_story [of ?s3 8 9] text3 cur3 earlier have
    "stories (saveStory 8 9 ?s3) =
       \<lparr>Story.id = toString 8, title = storyTitle (getText (editor ?s3)),
        Story.content = getText (editor ?s3), Story.timestamp = 9\<rparr> # stories ?s3"
    and fresh: "toString 8 \<notin> Story.id ` set (stories ?s3)"
    by blast+
  then have 3: "stories (saveStory 8 9 ?s3) =
      [\<lparr>Story.id = toString 8, title = ascii ''Chapter One'', Story.content = ?text,
        Story.timestamp = 9\<rparr>, ?old]"
    using title read by (simp add: initialApp_def)
  from fresh have 4: "toString 8 \<noteq> toString 7"
    by simp
  let ?s4 = "(initialApp (Some ?text))\<lparr>currentStoryId := Some (toString 7)\<rparr>"
  have text4: "\<not> (\<forall>c \<in> set (getText (editor ?s4)). isWhiteSpace c)"
    by (simp add: initialApp_def getText_Some isWhiteSpace_def ascii_def)
  have cur4: "currentStoryId ?s4 = Some (toString 7)"
    "toString 7 \<notin> Story.id ` set (stories ?s4)"
    by (simp_all add: initialApp_def)
  from save_story [of ?s4 8 9 "toString 7"] text4 cur4 cur2(2) have 5: "saveStory 8 9 ?s4 = ?s4"
    by blast
  from 1 2 3 4 5 show ?thesis
    by simp
qed

text \<open>
  Claim C10 as stated fails for the empty string as current id: it counts as no
  current id, so a story with that id is left as it was and a new story is put before
  it.
\<close>

theorem save_empty_id_counterexample:
  "stories (saveStory 5 6
      ((initialApp (Some (ascii ''new text'')))
         \<lparr>stories := [\<lparr>Story.id = [], title = ascii ''old'', Story.content = ascii ''old'',
                       Story.timestamp = 0\<rparr>],
          currentStoryId := Some []\<rparr>)) =
     [\<lparr>Story.id = toString 5, title = ascii ''new text'', Story.content = ascii ''new text'',
       Story.timestamp = 6\<rparr>,
      \<lparr>Story.id = [], title = ascii ''old'', Story.content = ascii ''old'',
       Story.timestamp = 0\<rparr>]"
  by (simp add: saveStory_def storyTitle_def initialApp_def getText_Some trim_def
      isWhiteSpace_def ascii_def Let_def)

text \<open>
  Claim C10, amended. When the current id is a non-empty string that a story of the
  collection has, saving keeps the length and the order of the collection, the id and
  the timestamp of every story, and every story with another id as it is; nothing of
  the application state but the collection changes.
\<close>

theorem save_frame:
  assumes "currentStoryId s = Some cur" and "cur \<noteq> []"
      and "cur \<in> Story.id ` set (stories s)"
  shows "length (stories (saveStory now1 now2 s)) = length (stories s) \<and>
         (\<forall>i < length (stories s).
            Story.id (stories (saveStory now1 now2 s) ! i) = Story.id (stories s ! i) \<and>
            Story.timestamp (stories (saveStory now1 now2 s) ! i) =
              Story.timestamp (stories s ! i) \<and>
            (Story.id (stories s ! i) \<noteq> cur \<longrightarrow>
               stories (saveStory now1 now2 s) ! i = stories s ! i)) \<and>
         saveStory now1 now2 s = s\<lparr>stories := stories (saveStory now1 now2 s)\<rparr>"
proof (cases "\<forall>c \<in> set (getText (editor s)). isWhiteSpace c")
  case True
  then have "saveStory now1 now2 s = s"
    by (rule saveStory_blank)
  then show ?thesis by simp
next
  case False
  from saveStory_update [OF False assms(1,2)] show ?thesis
    by simp
qed

theorem save_frame_witness:
  "length (stories (saveStory 8 9
      ((initialApp (Some (ascii ''new text'')))
         \<lparr>stories := [\<lparr>Story.id = toString 7, title = ascii ''a'', Story.content = ascii ''a'',
                       Story.timestamp = 7\<rparr>,
                      \<lparr>Story.id = toString 3, title = ascii ''b'', Story.content = ascii ''b'',
                       Story.timestamp = 3\<rparr>],
          currentStoryId := Some (toString 7)\<rparr>))) = 2 \<and>
   Story.id (stories (saveStory 8 9
      ((initialApp (Some (ascii ''new text'')))
         \<lparr>stories := [\<lparr>Story.id = toString 7, title = ascii ''a'', Story.content = ascii ''a'',
                       Story.timestamp = 7\<rparr>,
                      \<lparr>Story.id = toString 3, title = ascii ''b'', Story.content = ascii ''b'',
                       Story.timestamp = 3\<rparr>],
          currentStoryId := Some (toString 7)\<rparr>)) ! 0) = toString 7 \<and>
   Story.timestamp (stories (saveStory 8 9
      ((initialApp (Some (ascii ''new text'')))
         \<lparr>stories := [\<lparr>Story.id = toString 7, title = ascii ''a'', Story.content = ascii ''a'',
                       Story.timestamp = 7\<rparr>,
                      \<lparr>Story.id = toString 3, title = ascii ''b'', Story.content = ascii ''b'',
                       Story.timestamp = 3\<rparr>],
          currentStoryId := Some (toString 7)\<rparr>)) ! 0) = 7 \<and>
   stories (saveStory 8 9
      ((initialApp (Some (ascii ''new text'')))
         \<lparr>stories := [\<lparr>Story.id = toString 7, title = ascii ''a'', Story.content = ascii ''a'',
                       Story.timestamp = 7\<rparr>,
                      \<lparr>Story.id = toString 3, title = ascii ''b'', Story.content = ascii ''b'',
                       Story.timestamp = 3\<rparr>],
          currentStoryId := Some (toString 7)\<rparr>)) ! 1 =
     \<lparr>Story.id = toString 3, title = ascii ''b'', Story.content = ascii ''b'',
      Story.timestamp = 3\<rparr>"
proof -
  let ?a = "\<lparr>Story.id = toString 7, title = ascii ''a'', Story.content = ascii ''a'',
              Story.timestamp = 7\<rparr>"
  let ?b = "\<lparr>Story.id = toString 3, title = ascii ''b'', Story.content = ascii ''b'',
              Story.timestamp = 3\<rparr>"
  let ?s = "(initialApp (Some (ascii ''new text'')))
              \<lparr>stories := [?a, ?b], currentStoryId := Some (toString 7)\<rparr>"
  have cur: "currentStoryId ?s = Some (toString 7)" "toString 7 \<noteq> []"
    "toString 7 \<in> Story.id ` set (stories ?s)"
    by (simp_all add: toString_not_Nil)
  have other: "Story.id (stories ?s ! 1) \<noteq> toString 7"
    by (auto dest: toString_inj)
  from save_frame [OF cur, of 8 9] have
    len: "length (stories (saveStory 8 9 ?s)) = length (stories ?s)"
    and each: "\<forall>i < length (stories ?s).
            Story.id (stories (saveStory 8 9 ?s) ! i) = Story.id (stories ?s ! i) \<and>
            Story.timestamp (stories (saveStory 8 9 ?s) ! i) = Story.timestamp (stories ?s ! i) \<and>
            (Story.id (stories ?s ! i) \<noteq> toString 7 \<longrightarrow>
               stories (saveStory 8 9 ?s) ! i = stories ?s ! i)"
    by blast+
  from each have
    "Story.id (stories (saveStory 8 9 ?s) ! 0) = Story.id (stories ?s ! 0)"
    "Story.timestamp (stories (saveStory 8 9 ?s) ! 0) = Story.timestamp (stories ?s ! 0)"
    by simp_all
  moreover from each other have "stories (saveStory 8 9 ?s) ! 1 = stories ?s ! 1"
    by simp
  ultimately show ?thesis
    using len by simp
qed

section \<open>Loading the history\<close>

text \<open>
  Claim C7 as stated fails: a stored history that is not JSON makes \<open>JSON.parse\<close>
  throw, nothing catches it, and the load ends with that \<open>SyntaxError\<close> instead of an
  empty history.
\<close>

theorem load_unparsable_counterexample:
  "loadFromStorage
     \<lparr>ai_stories = None,
      ai_history = Some (Unparsable (ascii ''{'') (ascii ''Unexpected end of JSON input'')),
      ai_theme = None\<rparr>
     (initialApp (Some [])) = Inl (SyntaxError (ascii ''Unexpected end of JSON input''))"
  by (simp add: loadFromStorage_def loadStories_def loadHistory_def ascii_def)

text \<open>
  Claim C7, amended. The stories are read first; when their stored text is missing,
  empty or parses, the load goes on to the history. It gives the history that was
  stored when the stored text is the JSON text of a list of history entries; it leaves
  the history empty when the history key is missing or holds the empty string; when the
  text parses to any other value (\<open>null\<close>, an object), that value is what it puts in
  the place of the history, not an empty list; and it fails with the \<open>SyntaxError\<close> of
  \<open>JSON.parse\<close> when the text is not empty and does not parse. When the stored stories
  are a non-empty text that does not parse, the load fails before the history is read.
\<close>

theorem load_history:
  "((\<forall>t m. ai_stories st = Some (Unparsable t m) \<longrightarrow> t = []) \<and>
    ai_history st = Some (Encoded h) \<longrightarrow>
      (\<exists>r. loadFromStorage st (initialApp ta) = Inr r \<and>
           history (mounted r) = h \<and> rawHistory r = None)) \<and>
   ((\<forall>t m. ai_stories st = Some (Unparsable t m) \<longrightarrow> t = []) \<and>
    (ai_history st = None \<or> ai_history st = Some (Unparsable [] m)) \<longrightarrow>
      (\<exists>r. loadFromStorage st (initialApp ta) = Inr r \<and>
           history (mounted r) = [] \<and> rawHistory r = None)) \<and>
   ((\<forall>t m. ai_stories st = Some (Unparsable t m) \<longrightarrow> t = []) \<and>
    ai_history st = Some (Other v) \<longrightarrow>
      (\<exists>r. loadFromStorage st (initialApp ta) = Inr r \<and> rawHistory r = Some v)) \<and>
   ((\<forall>t m. ai_stories st = Some (Unparsable t m) \<longrightarrow> t = []) \<and>
    ai_history st = Some (Unparsable t m) \<and> t \<noteq> [] \<longrightarrow>
      loadFromStorage st (initialApp ta) = Inl (SyntaxError m)) \<and>
   (ai_stories st = Some (Unparsable t m) \<and> t \<noteq> [] \<longrightarrow>
      loadFromStorage st (initialApp ta) = Inl (SyntaxError m))"
proof -
  let ?r0 = "\<lparr>mounted = initialApp ta, rawStories = None, rawHistory = None\<rparr>"
  have stories_ok:
    "\<exists>r1. loadStories st ?r0 = Inr r1 \<and> history (mounted r1) = [] \<and> rawHistory r1 = None"
    if "\<forall>t m. ai_stories st = Some (Unparsable t m) \<longrightarrow> t = []"
    using that
    by (auto simp add: loadStories_def initialApp_def split: option.splits stored.splits)
  have theme: "history (mounted (loadTheme st r)) = history (mounted r) \<and>
      rawHistory (loadTheme st r) = rawHistory r" for r
    by (simp add: loadTheme_def split: option.splits)
  show ?thesis
  proof (intro conjI impI)
    assume a: "(\<forall>t m. ai_stories st = Some (Unparsable t m) \<longrightarrow> t = []) \<and>
      ai_history st = Some (Encoded h)"
    with stories_ok obtain r1 where r1: "loadStories st ?r0 = Inr r1" "rawHistory r1 = None"
      by blast
    from a have "loadHistory st r1 = Inr (r1\<lparr>mounted := (mounted r1)\<lparr>history := h\<rparr>\<rparr>)"
      by (simp add: loadHistory_def)
    with r1 theme
    show "\<exists>r. loadFromStorage st (initialApp ta) = Inr r \<and>
           history (mounted r) = h \<and> rawHistory r = None"
      by (simp add: loadFromStorage_def)
  next
    assume a: "(\<forall>t m. ai_stories st = Some (Unparsable t m) \<longrightarrow> t = []) \<and>
      (ai_history st = None \<or> ai_history st = Some (Unparsable [] m))"
    with stories_ok obtain r1 where r1: "loadStories st ?r0 = Inr r1"
      "history (mounted r1) = []" "rawHistory r1 = None"
      by blast
    from a have "loadHistory st r1 = Inr r1"
      by (auto simp add: loadHistory_def)
    with r1 theme
    show "\<exists>r. loadFromStorage st (initialApp ta) = Inr r \<and>
           history (mounted r) = [] \<and> rawHistory r = None"
      by (simp add: loadFromStorage_def)
  next
    assume a: "(\<forall>t m. ai_stories st = Some (Unparsable t m) \<longrightarrow> t = []) \<and>
      ai_history st = Some (Other v)"
    with stories_ok obtain r1 where r1: "loadStories st ?r0 = Inr r1"
      by blast
    from a have "loadHistory st r1 = Inr (r1\<lparr>rawHistory := Some v\<rparr>)"
      by (simp add: loadHistory_def)
    with r1 theme
    show "\<exists>r. loadFromStorage st (initialApp ta) = Inr r \<and> rawHistory r = Some v"
      by (simp add: loadFromStorage_def)
  next
    assume a: "(\<forall>t m. ai_stories st = Some (Unparsable t m) \<longrightarrow> t = []) \<and>
      ai_history st = Some (Unparsable t m) \<and> t \<noteq> []"
    with stories_ok obtain r1 where r1: "loadStories st ?r0 = Inr r1"
      by blast
    from a have "loadHistory st r1 = Inl (SyntaxError m)"
      by (simp add: loadHistory_def)
    with r1 show "loadFromStorage st (initialApp ta) = Inl (SyntaxError m)"
      by (simp add: loadFromStorage_def)
  next
    assume "ai_stories st = Some (Unparsable t m) \<and> t \<noteq> []"
    then show "loadFromStorage st (initialApp ta) = Inl (SyntaxError m)"
      by (simp add: loadFromStorage_def loadStories_def)
  qed
qed

theorem load_history_witness:
  "(\<exists>r. loadFromStorage
       \<lparr>ai_stories = None,
        ai_history = Some (Encoded [StringEntry (newEntry type_user (ascii ''Once'') 1 1)]),
        ai_theme = None\<rparr> (initialApp None) = Inr r \<and>
      history (mounted r) = [StringEntry (newEntry type_user (ascii ''Once'') 1 1)] \<and>
      rawHistory r = None) \<and>
   (\<exists>r. loadFromStorage \<lparr>ai_stories = None, ai_history = None, ai_theme = None\<rparr>
       (initialApp None) = Inr r \<and> history (mounted r) = [] \<and> rawHistory r = None) \<and>
   (\<exists>r. loadFromStorage \<lparr>ai_stories = Some (Other (JObject [])), ai_history = Some (Other JNull),
        ai_theme = None\<rparr> (initialApp None) = Inr r \<and> rawHistory r = Some JNull) \<and>
   loadFromStorage
     \<lparr>ai_stories = None, ai_history = Some (Unparsable (ascii ''{'') (ascii ''bad'')),
      ai_theme = None\<rparr> (initialApp None) = Inl (SyntaxError (ascii ''bad'')) \<and>
   loadFromStorage
     \<lparr>ai_stories = Some (Unparsable (ascii ''{'') (ascii ''bad'')),
      ai_history = Some (Encoded [StringEntry (newEntry type_user (ascii ''Once'') 1 1)]),
      ai_theme = None\<rparr> (initialApp None) = Inl (SyntaxError (ascii ''bad''))"
  using
    load_history [of
      "\<lparr>ai_stories = None,
        ai_history = Some (Encoded [StringEntry (newEntry type_user (ascii ''Once'') 1 1)]),
        ai_theme = None\<rparr>" "[StringEntry (newEntry type_user (ascii ''Once'') 1 1)]" None]
    load_history [of "\<lparr>ai_stories = None, ai_history = None, ai_theme = None\<rparr>" _ None]
    load_history [of
      "\<lparr>ai_stories = Some (Other (JObject [])), ai_history = Some (Other JNull),
        ai_theme = None\<rparr>" _ None _ JNull]
    load_history [of
      "\<lparr>ai_stories = None, ai_history = Some (Unparsable (ascii ''{'') (ascii ''bad'')),
        ai_theme = None\<rparr>" _ None "ascii ''bad''" _ "ascii ''{''"]
    load_history [of
      "\<lparr>ai_stories = Some (Unparsable (ascii ''{'') (ascii ''bad'')),
        ai_history = Some (Encoded [StringEntry (newEntry type_user (ascii ''Once'') 1 1)]),
        ai_theme = None\<rparr>" _ None "ascii ''bad''" _ "ascii ''{''"]
  by (simp add: ascii_def)

end
